theory Spec2Isabelle
  imports Main "HOL-Library.Sublist"
begin

section \<open>Python values, strings and exceptions\<close>

text \<open>
  A Python \<open>str\<close> is a sequence of Unicode code points: \<open>len\<close> counts code points,
  \<open>in\<close> between two strings is the contiguous-substring test and \<open>startswith\<close> the
  prefix test. A code point is a natural number; \<open>u\<close> reads an ASCII literal.
\<close>

type_synonym ustring = "nat list"

definition u :: "string \<Rightarrow> ustring" where
  "u s = map of_char s"

text \<open>
  \<open>str.strip()\<close> without argument removes leading and trailing whitespace, where
  whitespace is what \<open>str.isspace\<close> accepts: the ASCII controls 9 to 13 and 28 to 31,
  the space, and the Unicode separators NEL, NBSP, U+1680, U+2000 to U+200A, U+2028,
  U+2029, U+202F, U+205F and U+3000.
\<close>

definition isspace :: "nat \<Rightarrow> bool" where
  "isspace c =
     ((9 \<le> c \<and> c \<le> 13) \<or> (28 \<le> c \<and> c \<le> 32) \<or> c = 133 \<or> c = 160 \<or> c = 5760
      \<or> (8192 \<le> c \<and> c \<le> 8202) \<or> c = 8232 \<or> c = 8233 \<or> c = 8239 \<or> c = 8287
      \<or> c = 12288)"

definition strip :: "ustring \<Rightarrow> ustring" where
  "strip s = rev (dropWhile isspace (rev (dropWhile isspace s)))"

definition startswith :: "ustring \<Rightarrow> ustring \<Rightarrow> bool" where
  "startswith s p = prefix p s"

text \<open>\<open>str_in c name\<close> is Python's \<open>c in name\<close> on two strings.\<close>

definition str_in :: "ustring \<Rightarrow> ustring \<Rightarrow> bool" where
  "str_in c name = sublist c name"

text \<open>
  The values a caller can pass where the code inspects the dynamic type. \<open>PObject\<close>
  stands for an instance of any other class (a tuple, a float, a user class) with the
  name of its type and its truth value; it is an instance of neither \<open>str\<close>, \<open>dict\<close>
  nor \<open>list\<close>. A \<open>dict\<close> keeps its insertion order.
\<close>

datatype pyval =
    PNone
  | PBool bool
  | PInt int
  | PStr ustring
  | PList "pyval list"
  | PDict "(pyval \<times> pyval) list"
  | PObject ustring bool

fun type_name :: "pyval \<Rightarrow> ustring" where
  "type_name PNone = u ''NoneType''"
| "type_name (PBool b) = u ''bool''"
| "type_name (PInt i) = u ''int''"
| "type_name (PStr s) = u ''str''"
| "type_name (PList xs) = u ''list''"
| "type_name (PDict kvs) = u ''dict''"
| "type_name (PObject n t) = n"

text \<open>Truth value testing, as \<open>or\<close>, \<open>not\<close> and \<open>if\<close> apply it.\<close>

fun truthy :: "pyval \<Rightarrow> bool" where
  "truthy PNone = False"
| "truthy (PBool b) = b"
| "truthy (PInt i) = (i \<noteq> 0)"
| "truthy (PStr s) = (s \<noteq> [])"
| "truthy (PList xs) = (xs \<noteq> [])"
| "truthy (PDict kvs) = (kvs \<noteq> [])"
| "truthy (PObject n t) = t"

definition py_or :: "pyval \<Rightarrow> pyval \<Rightarrow> pyval" where
  "py_or a b = (if truthy a then a else b)"

text \<open>
  Exceptions, each with its message (\<open>str(e)\<close>). Every constructor is an instance of
  Python's \<open>Exception\<close>, the root of every error that the code, the driver, \<open>bson\<close> and
  \<open>json\<close> raise. \<open>ConnectionFailure\<close> is a subclass of \<open>PyMongoError\<close>;
  \<open>PyMongoError\<close> stands for every other driver error, \<open>OtherException\<close> (class name,
  message) for an exception of any other class. Interpreter exits (\<open>KeyboardInterrupt\<close>,
  \<open>SystemExit\<close>) are not failures of a call and are outside the model.
\<close>

datatype exn =
    TypeError ustring
  | ValueError ustring
  | RuntimeError ustring
  | ConnectionFailure ustring
  | PyMongoError ustring
  | OtherException ustring ustring

fun exn_str :: "exn \<Rightarrow> ustring" where
  "exn_str (TypeError m) = m"
| "exn_str (ValueError m) = m"
| "exn_str (RuntimeError m) = m"
| "exn_str (ConnectionFailure m) = m"
| "exn_str (PyMongoError m) = m"
| "exn_str (OtherException c m) = m"

text \<open>The handler \<open>except (ConnectionFailure, PyMongoError)\<close> of \<open>initialize_client\<close>.\<close>

fun is_pymongo_error :: "exn \<Rightarrow> bool" where
  "is_pymongo_error (ConnectionFailure m) = True"
| "is_pymongo_error (PyMongoError m) = True"
| "is_pymongo_error e = False"

text \<open>
  The error kinds of the specification: \<open>InvalidArgument\<close> is what the validators raise
  (\<open>TypeError\<close>, \<open>ValueError\<close>), \<open>IllegalState\<close> the \<open>RuntimeError\<close> of the constructor,
  \<open>ConnectionError\<close> a driver error.
\<close>

datatype error_kind = InvalidArgument | IllegalState | ConnectionError | OtherError

fun kind_of :: "exn \<Rightarrow> error_kind" where
  "kind_of (TypeError m) = InvalidArgument"
| "kind_of (ValueError m) = InvalidArgument"
| "kind_of (RuntimeError m) = IllegalState"
| "kind_of (ConnectionFailure m) = ConnectionError"
| "kind_of (PyMongoError m) = ConnectionError"
| "kind_of (OtherException c m) = OtherError"

section \<open>Validation\<close>

text \<open>
  \<open>_validate_connection_string\<close>: a \<open>TypeError\<close> unless the argument is a \<open>str\<close>, a
  \<open>ValueError\<close> when it is empty or whitespace, a \<open>ValueError\<close> unless it starts with
  one of the two schemes.
\<close>

definition validate_connection_string :: "pyval \<Rightarrow> exn + unit" where
  "validate_connection_string connection_string =
     (case connection_string of
        PStr cs \<Rightarrow>
          if strip cs = [] then
            Inl (ValueError (u ''Connection string cannot be empty or whitespace''))
          else if \<not> (startswith cs (u ''mongodb://'') \<or> startswith cs (u ''mongodb+srv://'')) then
            Inl (ValueError
              (u ''Connection string must start with '' @ [39] @ u ''mongodb://'' @ [39]
               @ u '' or '' @ [39] @ u ''mongodb+srv://'' @ [39]))
          else Inr ()
      | _ \<Rightarrow>
          Inl (TypeError
            (u ''Connection string must be a string, got '' @ type_name connection_string)))"

text \<open>
  The list \<open>invalid_chars\<close> of \<open>_validate_name\<close>, in the order of the source: eleven
  one-character strings, and the two-character string \<open>()\<close> before the last of them.
\<close>

definition invalid_chars :: "ustring list" where
  "invalid_chars =
     [u ''~'', [92], u ''.'', u '' '', [34], [39], u ''$'', u ''#'', u ''%'', u ''+'',
      u ''()'', u ''*'']"

text \<open>The loop \<open>for char in invalid_chars\<close>: the first entry found in the name raises.\<close>

fun check_invalid_chars :: "ustring list \<Rightarrow> ustring \<Rightarrow> ustring \<Rightarrow> exn + unit" where
  "check_invalid_chars [] name name_type = Inr ()"
| "check_invalid_chars (char # chars) name name_type =
     (if str_in char name then
        Inl (ValueError (name_type @ u '' name cannot contain '' @ [39] @ char @ [39]))
      else check_invalid_chars chars name name_type)"

definition validate_name :: "pyval \<Rightarrow> ustring \<Rightarrow> exn + unit" where
  "validate_name name name_type =
     (case name of
        PStr n \<Rightarrow>
          if strip n = [] then
            Inl (ValueError (name_type @ u '' name cannot be empty or whitespace''))
          else if length n > 64 then
            Inl (ValueError (name_type @ u '' name cannot exceed 64 characters''))
          else check_invalid_chars invalid_chars n name_type
      | _ \<Rightarrow>
          Inl (TypeError (name_type @ u '' name must be a string, got '' @ type_name name)))"

section \<open>The process state and the collaborators\<close>

text \<open>
  A \<open>handle\<close> is the identity of a \<open>MongoClient\<close> object, a \<open>database\<close> and a
  \<open>collection\<close> those of the objects that indexing a client and a database returns.
\<close>

type_synonym handle = nat
type_synonym database = nat
type_synonym collection = nat

datatype level = INFO | ERROR

text \<open>The calls made to the driver, in the order they are made.\<close>

datatype call =
    Connect pyval
  | Ping handle
  | Close handle
  | GetDatabase handle pyval
  | GetCollection database pyval
  | InsertOne collection pyval
  | InsertMany collection pyval
  | FindOne collection pyval
  | Find collection pyval
  | UpdateOne collection pyval pyval
  | DeleteOne collection pyval

text \<open>
  The state of the process: the class attribute \<open>MongoDBManager._client\<close> (\<open>None\<close> or a
  handle), the records emitted through \<open>logging\<close> (level and message; the root logger
  is configured at level \<open>INFO\<close>), the arguments of the \<open>print\<close> calls, and the calls made
  to the driver.
\<close>

record state =
  client :: "handle option"
  logged :: "(level \<times> ustring) list"
  printed :: "ustring list"
  calls :: "call list"

text \<open>The result objects of the driver: \<open>acknowledged\<close>, then \<open>inserted_id\<close> or \<open>inserted_ids\<close>.\<close>

datatype insert_one_result = InsertOneResult bool pyval

datatype insert_many_result = InsertManyResult bool "pyval list"

text \<open>
  What the code calls and does not define. \<open>getenv\<close> is
  \<open>os.getenv("MONGO_DB_CONNECTION_STRING")\<close> once \<open>load_dotenv()\<close> has run. Every driver
  operation returns its result or raises. An insert may add an \<open>_id\<close> to the caller's
  document in place, so \<open>coll_insert_one\<close> and \<open>coll_insert_many\<close> also return the
  argument as the call leaves it. \<open>MongoClient.close()\<close> returns nothing and reports no
  error; it appears in \<open>calls\<close> only. \<open>json_dumps\<close> is
  \<open>json.dumps(_, indent=2, default=str)\<close> and \<open>builtin_str\<close> the conversion an f-string
  applies to a value that is not a string. \<open>stdout_write\<close> is what \<open>print\<close> does with
  one text on \<open>sys.stdout\<close>: it writes it, or raises (a \<open>UnicodeEncodeError\<close> when the
  stream's encoding has no bytes for the text, a \<open>ValueError\<close> on a closed stream, an
  \<open>OSError\<close>).
\<close>

record env =
  getenv :: "ustring option"
  MongoClient :: "pyval \<Rightarrow> exn + handle"
  ping :: "handle \<Rightarrow> exn + unit"
  client_getitem :: "handle \<Rightarrow> pyval \<Rightarrow> exn + database"
  database_getitem :: "database \<Rightarrow> pyval \<Rightarrow> exn + collection"
  coll_insert_one :: "collection \<Rightarrow> pyval \<Rightarrow> exn + (insert_one_result \<times> pyval)"
  coll_insert_many :: "collection \<Rightarrow> pyval \<Rightarrow> exn + (insert_many_result \<times> pyval)"
  coll_find_one :: "collection \<Rightarrow> pyval \<Rightarrow> exn + pyval"
  coll_find :: "collection \<Rightarrow> pyval \<Rightarrow> exn + pyval"
  coll_update_one :: "collection \<Rightarrow> pyval \<Rightarrow> pyval \<Rightarrow> exn + pyval"
  coll_delete_one :: "collection \<Rightarrow> pyval \<Rightarrow> exn + pyval"
  json_dumps :: "pyval \<Rightarrow> exn + ustring"
  builtin_str :: "pyval \<Rightarrow> ustring"
  stdout_write :: "ustring \<Rightarrow> exn + unit"

fun str_of :: "env \<Rightarrow> pyval \<Rightarrow> ustring" where
  "str_of E (PStr s) = s"
| "str_of E v = builtin_str E v"

definition info :: "ustring \<Rightarrow> state \<Rightarrow> state" where
  "info msg s = s\<lparr>logged := logged s @ [(INFO, msg)]\<rparr>"

definition error :: "ustring \<Rightarrow> state \<Rightarrow> state" where
  "error msg s = s\<lparr>logged := logged s @ [(ERROR, msg)]\<rparr>"

text \<open>
  \<open>print(line)\<close>: the text is recorded when the stream takes it; when the stream raises,
  nothing is written and the exception is the one of the \<open>print\<close> statement.
\<close>

definition print :: "env \<Rightarrow> ustring \<Rightarrow> state \<Rightarrow> (exn + unit) \<times> state" where
  "print E line s =
     (case stdout_write E line of
        Inl e \<Rightarrow> (Inl e, s)
      | Inr _ \<Rightarrow> (Inr (), s\<lparr>printed := printed s @ [line]\<rparr>))"

text \<open>One statement after another: the second runs when the first has not raised.\<close>

definition and_then ::
  "(state \<Rightarrow> (exn + unit) \<times> state) \<Rightarrow> (state \<Rightarrow> (exn + 'a) \<times> state)
   \<Rightarrow> state \<Rightarrow> (exn + 'a) \<times> state" where
  "and_then f g s = (case f s of (Inl e, s') \<Rightarrow> (Inl e, s') | (Inr _, s') \<Rightarrow> g s')"

definition called :: "call \<Rightarrow> state \<Rightarrow> state" where
  "called c s = s\<lparr>calls := calls s @ [c]\<rparr>"

section \<open>The client lifecycle\<close>

text \<open>
  Line 43: \<open>conn_str = connection_string or os.getenv("MONGO_DB_CONNECTION_STRING")\<close>.
\<close>

definition resolve_conn_str :: "env \<Rightarrow> pyval \<Rightarrow> pyval" where
  "resolve_conn_str E connection_string =
     py_or connection_string (case getenv E of None \<Rightarrow> PNone | Some v \<Rightarrow> PStr v)"

text \<open>
  The handler of \<open>initialize_client\<close>: a \<open>ConnectionFailure\<close> or \<open>PyMongoError\<close> is
  logged, the attribute is reset to \<open>None\<close> and the exception is raised again; an
  exception of another class passes the handler untouched.
\<close>

definition connection_failed :: "exn \<Rightarrow> state \<Rightarrow> (exn + unit) \<times> state" where
  "connection_failed e s =
     (if is_pymongo_error e then
        (Inl e,
         (error (u ''FATAL: MongoDB connection failed during initialization: '' @ exn_str e) s)
           \<lparr>client := None\<rparr>)
      else (Inl e, s))"

definition initialize_client :: "env \<Rightarrow> pyval \<Rightarrow> state \<Rightarrow> (exn + unit) \<times> state" where
  "initialize_client E connection_string s =
     (if client s \<noteq> None then
        (Inr (), info (u ''MongoDB client already initialized.'') s)
      else
        let conn_str = resolve_conn_str E connection_string in
        case validate_connection_string conn_str of
          Inl e \<Rightarrow> (Inl e, s)
        | Inr _ \<Rightarrow>
            let s1 = called (Connect conn_str) s in
            (case MongoClient E conn_str of
               Inl e \<Rightarrow> connection_failed e s1
             | Inr h \<Rightarrow>
                 let s2 = called (Ping h) (s1\<lparr>client := Some h\<rparr>) in
                 (case ping E h of
                    Inl e \<Rightarrow> connection_failed e s2
                  | Inr _ \<Rightarrow>
                      (Inr (), info (u ''MongoDB client initialized successfully.'') s2))))"


section \<open>The collection accessor\<close>

record manager =
  db_name :: pyval
  collection_name :: pyval
  db :: database
  collection :: collection

text \<open>\<open>MongoDBManager.__init__\<close>.\<close>

definition init :: "env \<Rightarrow> pyval \<Rightarrow> pyval \<Rightarrow> state \<Rightarrow> (exn + manager) \<times> state" where
  "init E db_name' collection_name' s =
     (case client s of
        None \<Rightarrow>
          (Inl (RuntimeError
             (u ''MongoDB client not initialized. Call initialize_client() first.'')), s)
      | Some h \<Rightarrow>
          (case validate_name db_name' (u ''Database'') of
             Inl e \<Rightarrow> (Inl e, s)
           | Inr _ \<Rightarrow>
               (case validate_name collection_name' (u ''Collection'') of
                  Inl e \<Rightarrow> (Inl e, s)
                | Inr _ \<Rightarrow>
                    let s1 = called (GetDatabase h db_name') s in
                    (case client_getitem E h db_name' of
                       Inl e \<Rightarrow> (Inl e, s1)
                     | Inr d \<Rightarrow>
                         let s2 = called (GetCollection d collection_name') s1 in
                         (case database_getitem E d collection_name' of
                            Inl e \<Rightarrow> (Inl e, s2)
                          | Inr c \<Rightarrow>
                              (Inr \<lparr>db_name = db_name', collection_name = collection_name',
                                    db = d, collection = c\<rparr>,
                               info (u ''MongoDBManager instance created DB: '' @ [39]
                                     @ str_of E db_name' @ [39] @ u '', Collection: '' @ [39]
                                     @ str_of E collection_name' @ [39]) s2))))))"

text \<open>
  The four \<open>print\<close> statements after an insert: a banner, the two names, and the
  heading of the payload. Each can raise, and the later ones then do not run.
\<close>

definition summary_lines :: "env \<Rightarrow> manager \<Rightarrow> ustring \<Rightarrow> ustring list" where
  "summary_lines E self banner =
     [banner,
      u ''Database: '' @ str_of E (db_name self),
      u ''Collection: '' @ str_of E (collection_name self),
      u ''Created Data:'']"

definition print_summary ::
  "env \<Rightarrow> manager \<Rightarrow> ustring \<Rightarrow> state \<Rightarrow> (exn + unit) \<times> state" where
  "print_summary E self banner =
     and_then (print E banner)
       (and_then (print E (u ''Database: '' @ str_of E (db_name self)))
          (and_then (print E (u ''Collection: '' @ str_of E (collection_name self)))
             (print E (u ''Created Data:''))))"

text \<open>
  The body of the \<open>try\<close> statement of \<open>insert_document\<close>. After the driver's call come
  the summary, the rendering of the payload and its \<open>print\<close>, then the \<open>return\<close>; a raise
  of any of them leaves the body.
\<close>

definition insert_document_try ::
  "env \<Rightarrow> manager \<Rightarrow> pyval \<Rightarrow> state \<Rightarrow> (exn + bool \<times> pyval) \<times> state" where
  "insert_document_try E self data s =
     (case data of
        PDict kvs \<Rightarrow>
          let s1 = called (InsertOne (collection self) data) s in
          (case coll_insert_one E (collection self) data of
             Inl e \<Rightarrow> (Inl e, s1)
           | Inr (InsertOneResult acknowledged inserted_id, data') \<Rightarrow>
               and_then (print_summary E self (u ''=== SINGLE DOCUMENT INSERTED ===''))
                 (\<lambda>s2. case json_dumps E data' of
                    Inl e \<Rightarrow> (Inl e, s2)
                  | Inr js \<Rightarrow>
                      and_then (print E js) (\<lambda>s3. (Inr (acknowledged, inserted_id), s3)) s2)
                 s1)
      | PList xs \<Rightarrow>
          let s1 = called (InsertMany (collection self) data) s in
          (case coll_insert_many E (collection self) data of
             Inl e \<Rightarrow> (Inl e, s1)
           | Inr (InsertManyResult acknowledged inserted_ids, data') \<Rightarrow>
               and_then (print_summary E self (u ''=== MULTIPLE DOCUMENTS INSERTION ===''))
                 (\<lambda>s2. case json_dumps E data' of
                    Inl e \<Rightarrow> (Inl e, s2)
                  | Inr js \<Rightarrow>
                      and_then (print E js)
                        (\<lambda>s3. (Inr (acknowledged, PList inserted_ids), s3)) s2)
                 s1)
      | _ \<Rightarrow>
          and_then (print E (u ''Error: Data must be a dictionary or list of dictionaries''))
            (\<lambda>s1. (Inr (False, PNone), s1)) s)"

text \<open>
  \<open>insert_document\<close>: the body under \<open>except Exception\<close>. The handler logs the message,
  prints it and returns \<open>(False, None)\<close>; its \<open>print\<close> is outside every \<open>try\<close>, so an
  exception it raises is the exception of the call.
\<close>

definition insert_document ::
  "env \<Rightarrow> manager \<Rightarrow> pyval \<Rightarrow> state \<Rightarrow> (exn + bool \<times> pyval) \<times> state" where
  "insert_document E self data s =
     (case insert_document_try E self data s of
        (Inl e, s') \<Rightarrow>
          and_then (print E (u ''Error inserting data: '' @ exn_str e))
            (\<lambda>s''. (Inr (False, PNone), s''))
            (error (u ''Error inserting data: '' @ exn_str e) s')
      | (Inr r, s') \<Rightarrow> (Inr r, s'))"

definition find_one :: "env \<Rightarrow> manager \<Rightarrow> pyval \<Rightarrow> state \<Rightarrow> (exn + pyval) \<times> state" where
  "find_one E self filter_dict s =
     (coll_find_one E (collection self) filter_dict,
      called (FindOne (collection self) filter_dict) s)"

definition find_many :: "env \<Rightarrow> manager \<Rightarrow> pyval \<Rightarrow> state \<Rightarrow> (exn + pyval) \<times> state" where
  "find_many E self filter_dict s =
     (coll_find E (collection self) (py_or filter_dict (PDict [])),
      called (Find (collection self) (py_or filter_dict (PDict []))) s)"

definition update_one ::
  "env \<Rightarrow> manager \<Rightarrow> pyval \<Rightarrow> pyval \<Rightarrow> state \<Rightarrow> (exn + pyval) \<times> state" where
  "update_one E self filter_dict update_dict s =
     (coll_update_one E (collection self) filter_dict update_dict,
      called (UpdateOne (collection self) filter_dict update_dict) s)"

definition delete_one :: "env \<Rightarrow> manager \<Rightarrow> pyval \<Rightarrow> state \<Rightarrow> (exn + pyval) \<times> state" where
  "delete_one E self filter_dict s =
     (coll_delete_one E (collection self) filter_dict,
      called (DeleteOne (collection self) filter_dict) s)"

section \<open>The words of the specification\<close>

text \<open>
  The reserved characters as the specification lists them: tilde, backslash, dot, space,
  double quote, single quote, dollar, hash, percent, plus, the two parentheses and the
  asterisk. \<open>plain_reserved_characters\<close> are the same without the two parentheses.
\<close>

definition spec_reserved_characters :: "nat list" where
  "spec_reserved_characters = [126, 92, 46, 32, 34, 39, 36, 35, 37, 43, 40, 41, 42]"

definition plain_reserved_characters :: "nat list" where
  "plain_reserved_characters = [126, 92, 46, 32, 34, 39, 36, 35, 37, 43, 42]"

definition contains_any :: "nat list \<Rightarrow> ustring \<Rightarrow> bool" where
  "contains_any cs name = list_ex (\<lambda>c. c \<in> set name) cs"



section \<open>Concrete collaborators\<close>

text \<open>
  A process that has not initialised its client and one that holds the handle 1, a
  server that answers and acknowledges every write, a server that cannot be reached, and
  an accessor bound to a collection. Then three less friendly surroundings: a server
  whose reply to the ping cannot be decoded (\<open>bson\<close> raises \<open>InvalidBSON\<close>, which is
  not a \<open>PyMongoError\<close>), a standard output that is closed, and one encoded in UTF-8,
  which has no bytes for a lone surrogate (code points D800 to DFFF; the message of the
  error is shortened), with an accessor whose database name is such a code point.
\<close>

definition initial_state :: state where
  "initial_state = \<lparr>client = None, logged = [], printed = [], calls = []\<rparr>"

definition connected_state :: state where
  "connected_state = \<lparr>client = Some 1, logged = [], printed = [], calls = []\<rparr>"

definition example_env :: env where
  "example_env =
     \<lparr>getenv = Some (u ''mongodb://localhost:27017/''),
      MongoClient = (\<lambda>c. Inr 1),
      ping = (\<lambda>h. Inr ()),
      client_getitem = (\<lambda>h n. Inr 2),
      database_getitem = (\<lambda>d n. Inr 3),
      coll_insert_one = (\<lambda>c d. Inr (InsertOneResult True (PInt 7), d)),
      coll_insert_many = (\<lambda>c d. Inr (InsertManyResult True [PInt 7, PInt 8], d)),
      coll_find_one = (\<lambda>c f. Inr PNone),
      coll_find = (\<lambda>c f. Inr (PList [])),
      coll_update_one = (\<lambda>c f v. Inr PNone),
      coll_delete_one = (\<lambda>c f. Inr PNone),
      json_dumps = (\<lambda>v. Inr (u ''{}'')),
      builtin_str = (\<lambda>v. u ''?''),
      stdout_write = (\<lambda>line. Inr ())\<rparr>"

definition failing_env :: env where
  "failing_env =
     example_env
       \<lparr>ping := (\<lambda>h. Inl (ConnectionFailure (u ''timed out''))),
        coll_insert_one := (\<lambda>c d. Inl (PyMongoError (u ''duplicate key''))),
        coll_insert_many := (\<lambda>c d. Inl (TypeError (u ''documents must be a non-empty list''))),
        coll_find_one := (\<lambda>c f. Inl (ConnectionFailure (u ''timed out''))),
        coll_find := (\<lambda>c f. Inl (ConnectionFailure (u ''timed out''))),
        coll_update_one := (\<lambda>c f v. Inl (PyMongoError (u ''write error''))),
        coll_delete_one := (\<lambda>c f. Inl (PyMongoError (u ''write error'')))\<rparr>"

definition example_manager :: manager where
  "example_manager =
     \<lparr>db_name = PStr (u ''test_db''), collection_name = PStr (u ''test_collection''),
      db = 2, collection = 3\<rparr>"



definition utf8_stdout :: "ustring \<Rightarrow> exn + unit" where
  "utf8_stdout line =
     (if list_ex (\<lambda>c. 55296 \<le> c \<and> c \<le> 57343) line then
        Inl (OtherException (u ''UnicodeEncodeError'') (u ''surrogates not allowed''))
      else Inr ())"

definition surrogate_manager :: manager where
  "surrogate_manager =
     \<lparr>db_name = PStr [55296], collection_name = PStr (u ''test_collection''),
      db = 2, collection = 3\<rparr>"

section \<open>Name validation\<close>

lemma dropWhile_all: "(\<forall>x\<in>set (dropWhile P s). P x) \<longleftrightarrow> (\<forall>x\<in>set s. P x)"
  by (induction s) auto

lemma strip_empty_iff: "strip s = [] \<longleftrightarrow> list_all isspace s"
  by (simp add: strip_def dropWhile_eq_Nil_conv dropWhile_all list_all_iff)

lemma str_in_single: "str_in [c] name \<longleftrightarrow> c \<in> set name"
  by (induction name) (auto simp: str_in_def sublist_Cons_right)

lemma check_invalid_chars_ok_iff:
  "check_invalid_chars cs name t = Inr () \<longleftrightarrow> (\<forall>c\<in>set cs. \<not> str_in c name)"
  by (induction cs) auto

lemma check_invalid_chars_cases:
  "check_invalid_chars cs name t = Inr ()
   \<or> (\<exists>m. check_invalid_chars cs name t = Inl (ValueError m))"
  by (induction cs) auto

text \<open>On a string, validation returns or raises a \<open>ValueError\<close>.\<close>

lemma validate_name_cases:
  "validate_name (PStr n) t = Inr () \<or> (\<exists>m. validate_name (PStr n) t = Inl (ValueError m))"
  using check_invalid_chars_cases [of invalid_chars n t] by (auto simp: validate_name_def)

lemma invalid_chars_iff:
  "(\<forall>c\<in>set invalid_chars. \<not> str_in c n) \<longleftrightarrow>
     \<not> contains_any plain_reserved_characters n \<and> \<not> str_in (u ''()'') n"
  by (simp add: invalid_chars_def u_def str_in_single contains_any_def
      plain_reserved_characters_def) blast

text \<open>The names that validation accepts, exactly.\<close>

lemma validate_name_ok_iff:
  "validate_name (PStr n) t = Inr () \<longleftrightarrow>
     \<not> list_all isspace n \<and> length n \<le> 64
     \<and> \<not> contains_any plain_reserved_characters n \<and> \<not> str_in (u ''()'') n"
  by (auto simp: validate_name_def strip_empty_iff check_invalid_chars_ok_iff
      invalid_chars_iff simp del: One_nat_def)

lemma paren_pair_parts: "str_in (u ''()'') n \<Longrightarrow> 40 \<in> set n \<and> 41 \<in> set n"
  using set_mono_sublist [of "u ''()''" n] by (simp add: str_in_def u_def)

lemma spec_reserved_split:
  "contains_any spec_reserved_characters n \<longleftrightarrow>
     contains_any plain_reserved_characters n \<or> 40 \<in> set n \<or> 41 \<in> set n"
  by (simp add: contains_any_def spec_reserved_characters_def plain_reserved_characters_def)
    blast

lemma paren_message:
  "validate_name (PStr n) t
     = Inl (ValueError (t @ u '' name cannot contain '' @ [39] @ u ''()'' @ [39]))
   \<Longrightarrow> str_in (u ''()'') n"
  by (simp add: validate_name_def invalid_chars_def u_def split: if_splits)

lemma value_error_kind:
  "validate_name (PStr n) t \<noteq> Inr ()
   \<Longrightarrow> \<exists>e. validate_name (PStr n) t = Inl e \<and> kind_of e = InvalidArgument"
  using validate_name_cases [of n t] by auto

text \<open>
  C1, as amended. Validation of a string raises an \<open>InvalidArgument\<close> error when the
  string is empty or all whitespace, is longer than 64 characters, contains one of the
  eleven reserved characters other than the parentheses, or contains the adjacent pair
  \<open>()\<close>. It returns for every string that is not all whitespace, has 1 to 64 characters
  and contains none of the thirteen reserved characters of the specification.
\<close>

theorem validate_name_rejects_and_accepts:
  "(list_all isspace n \<or> 64 < length n \<or> contains_any plain_reserved_characters n
      \<or> str_in (u ''()'') n
    \<longrightarrow> (\<exists>e. validate_name (PStr n) t = Inl e \<and> kind_of e = InvalidArgument))
   \<and> (\<not> list_all isspace n \<and> 1 \<le> length n \<and> length n \<le> 64
        \<and> \<not> contains_any spec_reserved_characters n
      \<longrightarrow> validate_name (PStr n) t = Inr ())"
proof (intro conjI impI)
  assume "list_all isspace n \<or> 64 < length n \<or> contains_any plain_reserved_characters n
      \<or> str_in (u ''()'') n"
  then have "validate_name (PStr n) t \<noteq> Inr ()"
    by (auto simp: validate_name_ok_iff)
  then show "\<exists>e. validate_name (PStr n) t = Inl e \<and> kind_of e = InvalidArgument"
    by (rule value_error_kind)
next
  assume a: "\<not> list_all isspace n \<and> 1 \<le> length n \<and> length n \<le> 64
        \<and> \<not> contains_any spec_reserved_characters n"
  then have "\<not> contains_any plain_reserved_characters n" "\<not> str_in (u ''()'') n"
    using paren_pair_parts [of n] by (auto simp: spec_reserved_split)
  with a show "validate_name (PStr n) t = Inr ()"
    by (simp add: validate_name_ok_iff)
qed

theorem validate_name_rejects_and_accepts_witness:
  "contains_any plain_reserved_characters (u ''my app'')
   \<and> (\<exists>e. validate_name (PStr (u ''my app'')) (u ''Database'') = Inl e
          \<and> kind_of e = InvalidArgument)
   \<and> \<not> list_all isspace (u ''test_db'') \<and> length (u ''test_db'') = 7
   \<and> \<not> contains_any spec_reserved_characters (u ''test_db'')
   \<and> validate_name (PStr (u ''test_db'')) (u ''Database'') = Inr ()"
proof -
  have h1: "contains_any plain_reserved_characters (u ''my app'')"
    by (simp add: contains_any_def plain_reserved_characters_def u_def)
  have h2: "\<not> list_all isspace (u ''test_db'')" "length (u ''test_db'') = 7"
    "\<not> contains_any spec_reserved_characters (u ''test_db'')"
    by (simp_all add: contains_any_def spec_reserved_characters_def u_def isspace_def)
  show ?thesis
    using validate_name_rejects_and_accepts [of "u ''my app''" "u ''Database''"]
      validate_name_rejects_and_accepts [of "u ''test_db''" "u ''Database''"] h1 h2
    by simp
qed

text \<open>
  C1 as the specification states it fails twice. The name \<open>a(\<close> contains a reserved
  character and is accepted; the name made of one tab contains no reserved character,
  has length 1, and is rejected.
\<close>

theorem validate_name_counterexample:
  "contains_any spec_reserved_characters (u ''a('')
   \<and> validate_name (PStr (u ''a('')) (u ''Database'') = Inr ()
   \<and> \<not> contains_any spec_reserved_characters [9]
   \<and> length [9::nat] = 1
   \<and> validate_name (PStr [9]) (u ''Database'')
       = Inl (ValueError (u ''Database name cannot be empty or whitespace''))"
  by (simp add: contains_any_def spec_reserved_characters_def u_def validate_name_def
      strip_def isspace_def invalid_chars_def str_in_def sublist_code)

text \<open>
  C2. The parenthesis rule is the substring test for \<open>()\<close>. A name that contains a
  parenthesis but not the adjacent pair never raises the error of the parenthesis rule,
  and is accepted exactly when the other rules accept it: it is not all whitespace, has
  at most 64 characters and contains none of the other eleven reserved characters. A
  name that contains the adjacent pair is rejected with an \<open>InvalidArgument\<close> error.
\<close>

theorem validate_name_parenthesis_rule:
  "((40 \<in> set n \<or> 41 \<in> set n) \<and> \<not> str_in (u ''()'') n \<longrightarrow>
      validate_name (PStr n) t
        \<noteq> Inl (ValueError (t @ u '' name cannot contain '' @ [39] @ u ''()'' @ [39]))
      \<and> (validate_name (PStr n) t = Inr () \<longleftrightarrow>
           \<not> list_all isspace n \<and> length n \<le> 64
           \<and> \<not> contains_any plain_reserved_characters n))
   \<and> (str_in (u ''()'') n \<longrightarrow>
        (\<exists>e. validate_name (PStr n) t = Inl e \<and> kind_of e = InvalidArgument))"
proof (intro conjI impI)
  assume a: "(40 \<in> set n \<or> 41 \<in> set n) \<and> \<not> str_in (u ''()'') n"
  then show "validate_name (PStr n) t
        \<noteq> Inl (ValueError (t @ u '' name cannot contain '' @ [39] @ u ''()'' @ [39]))"
    using paren_message [of n t] by blast
  from a show "validate_name (PStr n) t = Inr () \<longleftrightarrow>
           \<not> list_all isspace n \<and> length n \<le> 64
           \<and> \<not> contains_any plain_reserved_characters n"
    by (simp add: validate_name_ok_iff)
next
  assume "str_in (u ''()'') n"
  then have "validate_name (PStr n) t \<noteq> Inr ()"
    by (simp add: validate_name_ok_iff)
  then show "\<exists>e. validate_name (PStr n) t = Inl e \<and> kind_of e = InvalidArgument"
    by (rule value_error_kind)
qed

theorem validate_name_parenthesis_rule_witness:
  "40 \<in> set (u ''a(b'') \<and> \<not> str_in (u ''()'') (u ''a(b'')
   \<and> validate_name (PStr (u ''a(b'')) (u ''Collection'') = Inr ()
   \<and> str_in (u ''()'') (u ''a()'')
   \<and> (\<exists>e. validate_name (PStr (u ''a()'')) (u ''Collection'') = Inl e
          \<and> kind_of e = InvalidArgument)"
proof -
  have h1: "40 \<in> set (u ''a(b'')" "\<not> str_in (u ''()'') (u ''a(b'')"
    "\<not> list_all isspace (u ''a(b'')" "length (u ''a(b'') \<le> 64"
    "\<not> contains_any plain_reserved_characters (u ''a(b'')"
    by (simp_all add: u_def str_in_def sublist_code isspace_def contains_any_def
        plain_reserved_characters_def)
  have h2: "str_in (u ''()'') (u ''a()'')"
    by (simp add: u_def str_in_def sublist_code)
  show ?thesis
    using validate_name_parenthesis_rule [of "u ''a(b''" "u ''Collection''"]
      validate_name_parenthesis_rule [of "u ''a()''" "u ''Collection''"] h1 h2
    by blast
qed

section \<open>The client lifecycle: properties\<close>


















section \<open>The collection accessor: properties\<close>

text \<open>
  C6. Without a handle the constructor raises the \<open>RuntimeError\<close> (the \<open>IllegalState\<close>
  of the specification) for every pair of names, before it looks at them, and changes
  nothing.
\<close>

theorem init_requires_client:
  "client s = None \<longrightarrow>
     init E db_name' collection_name' s =
       (Inl (RuntimeError
          (u ''MongoDB client not initialized. Call initialize_client() first.'')), s)
     \<and> (\<exists>e. fst (init E db_name' collection_name' s) = Inl e \<and> kind_of e = IllegalState)"
  by (simp add: init_def)

theorem init_requires_client_witness:
  "client initial_state = None
   \<and> init example_env (PStr (u ''test_db'')) (PStr (u ''test_collection'')) initial_state =
       (Inl (RuntimeError
          (u ''MongoDB client not initialized. Call initialize_client() first.'')),
        initial_state)"
proof -
  have h: "client initial_state = None"
    by (simp add: initial_state_def)
  show ?thesis
    using init_requires_client [of initial_state example_env "PStr (u ''test_db'')"
        "PStr (u ''test_collection'')"] h
    by blast
qed

lemma print_ok:
  "stdout_write E line = Inr ()
   \<Longrightarrow> print E line s = (Inr (), s\<lparr>printed := printed s @ [line]\<rparr>)"
  by (simp add: print_def)

lemma print_summary_ok:
  "list_all (\<lambda>line. stdout_write E line = Inr ()) (summary_lines E self banner) \<Longrightarrow>
   print_summary E self banner s =
     (Inr (), s\<lparr>printed := printed s @ summary_lines E self banner\<rparr>)"
  by (simp add: print_summary_def summary_lines_def and_then_def print_ok)





lemma example_stdout:
  "stdout_write example_env line = Inr ()" "stdout_write failing_env line = Inr ()"
  by (simp_all add: failing_env_def example_env_def)




text \<open>
  C4, as amended. For a \<open>dict\<close>, when the driver's \<open>insert_one\<close> returns a result, the
  payload is rendered, and the four summary lines and the rendering are printed,
  \<open>insert_document\<close> has made that one call and returns the pair of the result's
  \<open>acknowledged\<close> flag and \<open>inserted_id\<close>. For a \<open>list\<close>, under the same conditions on
  \<open>insert_many\<close>, it returns the flag and the list \<open>inserted_ids\<close>. The first component
  is the driver's flag, so it is \<open>True\<close> when the driver acknowledges.
\<close>

theorem insert_document_success:
  "(coll_insert_one E (collection self) (PDict kvs) = Inr (InsertOneResult ack oid, d')
      \<and> json_dumps E d' = Inr js
      \<and> list_all (\<lambda>line. stdout_write E line = Inr ())
           (summary_lines E self (u ''=== SINGLE DOCUMENT INSERTED ==='') @ [js]) \<longrightarrow>
      insert_document E self (PDict kvs) s =
        (Inr (ack, oid),
         s\<lparr>printed := printed s
              @ summary_lines E self (u ''=== SINGLE DOCUMENT INSERTED ==='') @ [js],
           calls := calls s @ [InsertOne (collection self) (PDict kvs)]\<rparr>))
   \<and> (coll_insert_many E (collection self) (PList xs) = Inr (InsertManyResult ack oids, d')
      \<and> json_dumps E d' = Inr js
      \<and> list_all (\<lambda>line. stdout_write E line = Inr ())
           (summary_lines E self (u ''=== MULTIPLE DOCUMENTS INSERTION ==='') @ [js]) \<longrightarrow>
      insert_document E self (PList xs) s =
        (Inr (ack, PList oids),
         s\<lparr>printed := printed s
              @ summary_lines E self (u ''=== MULTIPLE DOCUMENTS INSERTION ==='') @ [js],
           calls := calls s @ [InsertMany (collection self) (PList xs)]\<rparr>))"
  by (cases s)
    (simp add: insert_document_def insert_document_try_def print_summary_ok and_then_def
      print_ok called_def Let_def)

theorem insert_document_success_witness:
  "coll_insert_one example_env (collection example_manager) (PDict [(PStr (u ''a''), PInt 1)])
      = Inr (InsertOneResult True (PInt 7), PDict [(PStr (u ''a''), PInt 1)])
   \<and> json_dumps example_env (PDict [(PStr (u ''a''), PInt 1)]) = Inr (u ''{}'')
   \<and> fst (insert_document example_env example_manager (PDict [(PStr (u ''a''), PInt 1)])
          initial_state) = Inr (True, PInt 7)
   \<and> coll_insert_many example_env (collection example_manager)
        (PList [PDict [(PStr (u ''a''), PInt 1)], PDict [(PStr (u ''b''), PInt 2)]])
      = Inr (InsertManyResult True [PInt 7, PInt 8],
          PList [PDict [(PStr (u ''a''), PInt 1)], PDict [(PStr (u ''b''), PInt 2)]])
   \<and> json_dumps example_env
        (PList [PDict [(PStr (u ''a''), PInt 1)], PDict [(PStr (u ''b''), PInt 2)]])
      = Inr (u ''{}'')
   \<and> fst (insert_document example_env example_manager
          (PList [PDict [(PStr (u ''a''), PInt 1)], PDict [(PStr (u ''b''), PInt 2)]])
          initial_state) = Inr (True, PList [PInt 7, PInt 8])"
proof -
  have h: "coll_insert_one example_env (collection example_manager)
        (PDict [(PStr (u ''a''), PInt 1)])
      = Inr (InsertOneResult True (PInt 7), PDict [(PStr (u ''a''), PInt 1)])"
    "json_dumps example_env (PDict [(PStr (u ''a''), PInt 1)]) = Inr (u ''{}'')"
    "coll_insert_many example_env (collection example_manager)
        (PList [PDict [(PStr (u ''a''), PInt 1)], PDict [(PStr (u ''b''), PInt 2)]])
      = Inr (InsertManyResult True [PInt 7, PInt 8],
          PList [PDict [(PStr (u ''a''), PInt 1)], PDict [(PStr (u ''b''), PInt 2)]])"
    "json_dumps example_env
        (PList [PDict [(PStr (u ''a''), PInt 1)], PDict [(PStr (u ''b''), PInt 2)]])
      = Inr (u ''{}'')"
    by (simp_all add: example_env_def)
  have p: "list_all (\<lambda>line. stdout_write example_env line = Inr ()) ls" for ls
    by (simp add: example_stdout list_all_iff)
  have a: "fst (insert_document example_env example_manager (PDict [(PStr (u ''a''), PInt 1)])
          initial_state) = Inr (True, PInt 7)"
    using insert_document_success [of example_env example_manager
        "[(PStr (u ''a''), PInt 1)]" True "PInt 7" "PDict [(PStr (u ''a''), PInt 1)]" "u ''{}''"
        initial_state] h p
    by simp
  have b: "fst (insert_document example_env example_manager
          (PList [PDict [(PStr (u ''a''), PInt 1)], PDict [(PStr (u ''b''), PInt 2)]])
          initial_state) = Inr (True, PList [PInt 7, PInt 8])"
    using insert_document_success [of example_env example_manager _ _ _
        "PList [PDict [(PStr (u ''a''), PInt 1)], PDict [(PStr (u ''b''), PInt 2)]]" "u ''{}''"
        initial_state "[PDict [(PStr (u ''a''), PInt 1)], PDict [(PStr (u ''b''), PInt 2)]]"
        "[PInt 7, PInt 8]"] h p
    by simp
  show ?thesis
    using h a b by blast
qed

text \<open>
  C4 as the specification states it fails for an accessor whose database name is a
  lone surrogate, a name that \<open>validate_name\<close> accepts, on a standard output in UTF-8:
  the driver inserts the document and acknowledges, the second summary line cannot be
  printed, and the call returns \<open>(False, None)\<close>.
\<close>

theorem insert_document_summary_counterexample:
  "validate_name (PStr [55296]) (u ''Database'') = Inr ()
   \<and> coll_insert_one (example_env\<lparr>stdout_write := utf8_stdout\<rparr>) (collection surrogate_manager)
        (PDict [(PStr (u ''a''), PInt 1)])
      = Inr (InsertOneResult True (PInt 7), PDict [(PStr (u ''a''), PInt 1)])
   \<and> json_dumps (example_env\<lparr>stdout_write := utf8_stdout\<rparr>) (PDict [(PStr (u ''a''), PInt 1)])
      = Inr (u ''{}'')
   \<and> fst (insert_document (example_env\<lparr>stdout_write := utf8_stdout\<rparr>) surrogate_manager
        (PDict [(PStr (u ''a''), PInt 1)]) connected_state) = Inr (False, PNone)
   \<and> calls (snd (insert_document (example_env\<lparr>stdout_write := utf8_stdout\<rparr>) surrogate_manager
        (PDict [(PStr (u ''a''), PInt 1)]) connected_state))
      = [InsertOne (collection surrogate_manager) (PDict [(PStr (u ''a''), PInt 1)])]"
  by (simp add: insert_document_def insert_document_try_def print_summary_def and_then_def
      print_def utf8_stdout_def example_env_def surrogate_manager_def connected_state_def
      called_def error_def u_def validate_name_def strip_def isspace_def invalid_chars_def
      str_in_def sublist_code)

text \<open>
  C9. When the driver raises in \<open>find_one\<close>, \<open>find\<close>, \<open>update_one\<close> or \<open>delete_one\<close>,
  the accessor's method raises the same exception; nothing is logged or printed and the
  handle is untouched.
\<close>

theorem crud_failures_propagate:
  "(coll_find_one E (collection self) filter_dict = Inl e \<longrightarrow>
      find_one E self filter_dict s =
        (Inl e, s\<lparr>calls := calls s @ [FindOne (collection self) filter_dict]\<rparr>))
   \<and> (coll_find E (collection self) (py_or filter_dict (PDict [])) = Inl e \<longrightarrow>
      find_many E self filter_dict s =
        (Inl e, s\<lparr>calls := calls s @ [Find (collection self) (py_or filter_dict (PDict []))]\<rparr>))
   \<and> (coll_update_one E (collection self) filter_dict update_dict = Inl e \<longrightarrow>
      update_one E self filter_dict update_dict s =
        (Inl e, s\<lparr>calls := calls s @ [UpdateOne (collection self) filter_dict update_dict]\<rparr>))
   \<and> (coll_delete_one E (collection self) filter_dict = Inl e \<longrightarrow>
      delete_one E self filter_dict s =
        (Inl e, s\<lparr>calls := calls s @ [DeleteOne (collection self) filter_dict]\<rparr>))"
  by (simp add: find_one_def find_many_def update_one_def delete_one_def called_def)

theorem crud_failures_propagate_witness:
  "coll_find_one failing_env (collection example_manager) (PDict [])
       = Inl (ConnectionFailure (u ''timed out''))
   \<and> find_one failing_env example_manager (PDict []) connected_state =
       (Inl (ConnectionFailure (u ''timed out'')),
        connected_state\<lparr>calls := calls connected_state
          @ [FindOne (collection example_manager) (PDict [])]\<rparr>)
   \<and> coll_find failing_env (collection example_manager) (py_or PNone (PDict []))
       = Inl (ConnectionFailure (u ''timed out''))
   \<and> find_many failing_env example_manager PNone connected_state =
       (Inl (ConnectionFailure (u ''timed out'')),
        connected_state\<lparr>calls := calls connected_state
          @ [Find (collection example_manager) (py_or PNone (PDict []))]\<rparr>)
   \<and> coll_update_one failing_env (collection example_manager) (PDict []) (PDict [])
       = Inl (PyMongoError (u ''write error''))
   \<and> update_one failing_env example_manager (PDict []) (PDict []) connected_state =
       (Inl (PyMongoError (u ''write error'')),
        connected_state\<lparr>calls := calls connected_state
          @ [UpdateOne (collection example_manager) (PDict []) (PDict [])]\<rparr>)
   \<and> coll_delete_one failing_env (collection example_manager) (PDict [])
       = Inl (PyMongoError (u ''write error''))
   \<and> delete_one failing_env example_manager (PDict []) connected_state =
       (Inl (PyMongoError (u ''write error'')),
        connected_state\<lparr>calls := calls connected_state
          @ [DeleteOne (collection example_manager) (PDict [])]\<rparr>)"
proof -
  have h: "coll_find_one failing_env (collection example_manager) (PDict [])
       = Inl (ConnectionFailure (u ''timed out''))"
    "coll_find failing_env (collection example_manager) (py_or PNone (PDict []))
       = Inl (ConnectionFailure (u ''timed out''))"
    "coll_update_one failing_env (collection example_manager) (PDict []) (PDict [])
       = Inl (PyMongoError (u ''write error''))"
    "coll_delete_one failing_env (collection example_manager) (PDict [])
       = Inl (PyMongoError (u ''write error''))"
    by (simp_all add: failing_env_def example_env_def)
  show ?thesis
    using crud_failures_propagate [of failing_env example_manager "PDict []"
        "ConnectionFailure (u ''timed out'')" connected_state]
      crud_failures_propagate [of failing_env example_manager PNone
        "ConnectionFailure (u ''timed out'')" connected_state]
      crud_failures_propagate [of failing_env example_manager "PDict []"
        "PyMongoError (u ''write error'')" connected_state "PDict []"]
      h
    by blast
qed

end
